theory Spec2Isabelle
  imports Main "HOL-Library.Product_Lexorder"
begin

section \<open>Incident records\<close>

text \<open>
  An incident is the dict built by \<^verbatim>\<open>generate_incident\<close>; its ten keys are the fields of a
  record. The key \<^verbatim>\<open>'id'\<close> is the field \<open>id_key\<close> (\<open>id\<close> is the identity function of HOL).
  \<^verbatim>\<open>datetime.now()\<close> is a point on a linear time axis, a natural number here; the string
  \<^verbatim>\<open>datetime.now().strftime('%H:%M:%S')\<close> is taken as an input wherever the code reads the clock.
\<close>

type_synonym datetime = nat

record log_entry =
  time :: string
  recipient :: string

record incident =
  id_key :: string
  type :: string
  location :: string
  status :: string
  timestamp :: datetime
  deescalation_score :: int
  notifications_sent :: int
  wellness_required :: int
  description :: string
  notification_log :: "log_entry list"

text \<open>Python's \<^verbatim>\<open>str\<close> of an integer, as the f-string \<^verbatim>\<open>{score}\<close> formats it.\<close>

fun str_nat :: "nat \<Rightarrow> string" where
  "str_nat n =
     (if n < 10 then [char_of (48 + n)]
      else str_nat (n div 10) @ [char_of (48 + n mod 10)])"

declare str_nat.simps [simp del]

definition str_int :: "int \<Rightarrow> string" where
  "str_int i = (if i < 0 then CHR ''-'' # str_nat (nat (- i)) else str_nat (nat i))"

text \<open>
  \<^verbatim>\<open>generate_incident(incident_type, location, score)\<close>. The two things it reads from the
  outside, \<^verbatim>\<open>str(uuid4())\<close> and \<^verbatim>\<open>datetime.now()\<close>, are the first two arguments.
\<close>

definition generate_incident :: "string \<Rightarrow> datetime \<Rightarrow> string \<Rightarrow> string \<Rightarrow> int \<Rightarrow> incident" where
  "generate_incident uuid4_str now_dt incident_type loc score =
     \<lparr> id_key = take 8 uuid4_str,
       type = incident_type,
       location = loc,
       status = ''New'',
       timestamp = now_dt,
       deescalation_score = score,
       notifications_sent = 0,
       wellness_required = 2,
       description = ''Deep Learning Model detected **'' @ incident_type @ ''** at '' @ loc
                     @ '' with '' @ str_int score @ ''% confidence.'',
       notification_log = [] \<rparr>"

section \<open>What the user interface is told\<close>

text \<open>
  The calls into the user-interface library that the claims speak about, one constructor per
  message of the source (the text of a message is not modelled, only its arguments):
  \<^item> \<open>Email_alert_sent r i\<close>: \<^verbatim>\<open>st.success("EMAIL ALERT SENT successfully to {r} for Incident {i}!")\<close>;
  \<^item> \<open>Email_failure e\<close>: \<^verbatim>\<open>st.error("Simulated email failure: ... Error: {e}")\<close>;
  \<^item> \<open>Violation_detected c\<close>: \<^verbatim>\<open>st.error("VIOLATION DETECTED! Confidence: {c}%")\<close> (image and video);
  \<^item> \<open>No_violation c\<close>: \<^verbatim>\<open>st.success("No Violation Detected. Confidence: {c}%")\<close> (image and video);
  \<^item> \<open>Toast_logged\<close>: \<^verbatim>\<open>st.toast("... incident logged and alert sent!")\<close>.
\<close>

datatype ui_effect =
    Email_alert_sent string string
  | Email_failure string
  | Violation_detected int
  | No_violation int
  | Toast_logged

section \<open>The alert dispatcher send_alert_email\<close>

text \<open>
  The \<^verbatim>\<open>try\<close> block either completes (\<open>None\<close>) or raises an \<^verbatim>\<open>Exception\<close> with a
  message (\<open>Some e\<close>), which the \<^verbatim>\<open>except\<close> clause turns into an error message. The append to
  \<^verbatim>\<open>notification_log\<close> stands after the \<^verbatim>\<open>try\<close> statement. \<open>notifications_sent\<close> is not
  touched.
\<close>

definition RECIPIENT_EMAIL :: string where
  "RECIPIENT_EMAIL = ''security@university.edu''"

definition send_alert_email :: "string option \<Rightarrow> string \<Rightarrow> incident \<Rightarrow> ui_effect \<times> incident" where
  "send_alert_email raised hms incident_details =
     ((case raised of
         None \<Rightarrow> Email_alert_sent RECIPIENT_EMAIL (id_key incident_details)
       | Some e \<Rightarrow> Email_failure e),
      incident_details\<lparr> notification_log :=
        notification_log incident_details @ [\<lparr> time = hms, recipient = ''Email Alert System'' \<rparr>] \<rparr>)"

section \<open>RealTimeDetector\<close>

record detector =
  violence_score :: int
  frame_counter :: int
  detection_triggered :: bool

text \<open>\<^verbatim>\<open>RealTimeDetector.__init__\<close>.\<close>

definition RealTimeDetector :: detector where
  "RealTimeDetector = \<lparr> violence_score = 0, frame_counter = 0, detection_triggered = False \<rparr>"

section \<open>Session state\<close>

text \<open>
  The keys of \<^verbatim>\<open>st.session_state\<close> that the incident engine reads and writes
  (\<^verbatim>\<open>risk_zones\<close> is display data only and is left out).
\<close>

record session_state =
  incidents :: "incident list"
  active_incident_id :: "string option"
  violation_detected :: bool
  email_sent_for_last_detection :: bool

text \<open>\<^verbatim>\<open>initialize_state\<close> on an empty session.\<close>

definition initialize_state :: session_state where
  "initialize_state =
     \<lparr> incidents = [], active_incident_id = None,
       violation_detected = False, email_sent_for_last_detection = False \<rparr>"

text \<open>
  The frame handed to \<^verbatim>\<open>recv\<close>, as far as \<^verbatim>\<open>recv\<close> uses it: \<^verbatim>\<open>frame.to_ndarray(format=f)\<close>
  returns an array or raises, depending on the frame and on the format name \<open>f\<close>. The
  array itself is only drawn on.
\<close>

datatype to_ndarray_result = Ndarray | Raises string

type_synonym video_frame = "string \<Rightarrow> to_ndarray_result"

text \<open>
  \<^verbatim>\<open>RealTimeDetector.recv\<close>: the conversion of the frame with the format name \<^verbatim>\<open>"bgr"\<close>, the
  ramp, then the threshold test. When the conversion raises, the exception leaves \<^verbatim>\<open>recv\<close>
  (\<open>Inl\<close>) before anything is written. The drawing on the array is left out. Whether or
  not the key \<^verbatim>\<open>violation_detected\<close> was set before, it is \<open>True\<close> after the first branch.
\<close>

definition recv :: "video_frame \<Rightarrow> detector \<times> session_state \<Rightarrow> string + (detector \<times> session_state)" where
  "recv frame ds =
     (case frame ''bgr'' of
        Raises err \<Rightarrow> Inl err
      | Ndarray \<Rightarrow>
          (let self = fst ds; ss = snd ds;
               self1 = (if frame_counter self < 100
                        then self\<lparr> violence_score := min 100 (frame_counter self),
                                   frame_counter := frame_counter self + 1 \<rparr>
                        else self)
           in if violence_score self1 \<ge> 90 \<and> \<not> detection_triggered self1
              then Inr (self1\<lparr> detection_triggered := True \<rparr>, ss\<lparr> violation_detected := True \<rparr>)
              else Inr (self1, ss)))"

section \<open>Creating an incident and alerting\<close>

text \<open>
  What the environment supplies when an incident is created: the uuid string, the two clock
  readings and the outcome of the \<^verbatim>\<open>try\<close> block of \<^verbatim>\<open>send_alert_email\<close>.
\<close>

record env =
  uuid4 :: string
  now :: datetime
  strftime :: string
  raised :: "string option"

text \<open>
  The four statements that \<^verbatim>\<open>main\<close>, \<^verbatim>\<open>process_uploaded_image\<close> and
  \<^verbatim>\<open>process_uploaded_video\<close> share: build the incident, append it to the store, select it,
  call \<^verbatim>\<open>send_alert_email\<close> on it. The dict appended to the list and the dict handed to
  \<^verbatim>\<open>send_alert_email\<close> are one object, so the store holds the incident with the log entry.
\<close>

definition log_and_alert :: "env \<Rightarrow> string \<Rightarrow> string \<Rightarrow> int \<Rightarrow> session_state \<Rightarrow> ui_effect \<times> session_state" where
  "log_and_alert e incident_type loc score ss =
     (let new_incident = generate_incident (uuid4 e) (now e) incident_type loc score;
          sent = send_alert_email (raised e) (strftime e) new_incident
      in (fst sent,
          ss\<lparr> incidents := incidents ss @ [snd sent],
              active_incident_id := Some (id_key new_incident) \<rparr>))"

text \<open>The detection check at the top of \<^verbatim>\<open>main\<close> (lines 409 to 424).\<close>

definition main_detection_check :: "env \<Rightarrow> session_state \<Rightarrow> session_state" where
  "main_detection_check e ss =
     (if violation_detected ss \<and> \<not> email_sent_for_last_detection ss
      then (snd (log_and_alert e ''Confirmed Live Violence'' ''Live Camera Feed'' 95 ss))
             \<lparr> email_sent_for_last_detection := True, violation_detected := False \<rparr>
      else ss)"

section \<open>File analysis\<close>

text \<open>
  \<^verbatim>\<open>process_uploaded_image\<close>: \<open>simulated_violence_score\<close> is the value drawn by
  \<^verbatim>\<open>random.randint(70, 100)\<close>, \<open>pressed\<close> says whether the button
  "Log Incident and Send Alert" was pressed in this run. The location is
  \<^verbatim>\<open>f"File: {uploaded_file.name}"\<close>.
\<close>

definition process_uploaded_image :: "string \<Rightarrow> int \<Rightarrow> bool \<Rightarrow> env \<Rightarrow> session_state \<Rightarrow> ui_effect list \<times> session_state" where
  "process_uploaded_image name simulated_violence_score pressed e ss =
     (if simulated_violence_score \<ge> 80
      then (if pressed
            then (let r = log_and_alert e ''Image Upload Violence'' (''File: '' @ name)
                            simulated_violence_score ss
                  in ([Violation_detected simulated_violence_score, fst r, Toast_logged], snd r))
            else ([Violation_detected simulated_violence_score], ss))
      else ([No_violation simulated_violence_score], ss))"

text \<open>
  \<^verbatim>\<open>process_uploaded_video\<close>: \<open>pressed\<close> is the button "Run Full Video Detection Analysis";
  \<open>simulated_violence_score\<close> is the value drawn by \<^verbatim>\<open>random.randint(85, 99)\<close>.
\<close>

definition process_uploaded_video :: "string \<Rightarrow> int \<Rightarrow> bool \<Rightarrow> env \<Rightarrow> session_state \<Rightarrow> ui_effect list \<times> session_state" where
  "process_uploaded_video name simulated_violence_score pressed e ss =
     (if pressed
      then (if simulated_violence_score \<ge> 85
            then (let r = log_and_alert e ''Video Footage Violence'' (''Video: '' @ name)
                            simulated_violence_score ss
                  in ([Violation_detected simulated_violence_score, fst r, Toast_logged], snd r))
            else ([No_violation simulated_violence_score], ss))
      else ([], ss))"

section \<open>Incident list panel\<close>

text \<open>
  \<^verbatim>\<open>sorted(xs, key=k, reverse=True)\<close>: Python reverses the list, sorts it stably in ascending
  order of the key and reverses the result. The key is a tuple, compared lexicographically,
  with \<open>False < True\<close>.
\<close>

definition py_sorted_reverse :: "('a \<Rightarrow> 'k::linorder) \<Rightarrow> 'a list \<Rightarrow> 'a list" where
  "py_sorted_reverse k xs = rev (sort_key k (rev xs))"

definition sort_key_of :: "incident \<Rightarrow> bool \<times> datetime" where
  "sort_key_of x = (status x \<noteq> ''New'', timestamp x)"

definition sorted_incidents :: "incident list \<Rightarrow> incident list" where
  "sorted_incidents xs = py_sorted_reverse sort_key_of xs"

text \<open>A click on the card of an incident in the list.\<close>

definition select_incident :: "string \<Rightarrow> session_state \<Rightarrow> session_state" where
  "select_incident incident_id ss = ss\<lparr> active_incident_id := Some incident_id \<rparr>"

section \<open>Incident detail panel handlers\<close>

text \<open>
  \<^verbatim>\<open>handle_update(incident_id, key, value)\<close>. The only caller passes the key \<^verbatim>\<open>'status'\<close> and
  a string; \<open>item_key\<close> lists the keys of the record whose values are strings, so that
  \<^verbatim>\<open>incident[key] = value\<close> stays inside the record.
\<close>

datatype item_key = Key_id | Key_type | Key_location | Key_status | Key_description

fun set_item :: "item_key \<Rightarrow> string \<Rightarrow> incident \<Rightarrow> incident" where
  "set_item Key_id v incident = incident\<lparr> id_key := v \<rparr>"
| "set_item Key_type v incident = incident\<lparr> type := v \<rparr>"
| "set_item Key_location v incident = incident\<lparr> location := v \<rparr>"
| "set_item Key_status v incident = incident\<lparr> status := v \<rparr>"
| "set_item Key_description v incident = incident\<lparr> description := v \<rparr>"

text \<open>The \<^verbatim>\<open>for\<close> loop with its \<^verbatim>\<open>break\<close>: the first incident with the id is updated.\<close>

fun handle_update_loop :: "string \<Rightarrow> item_key \<Rightarrow> string \<Rightarrow> incident list \<Rightarrow> incident list" where
  "handle_update_loop incident_id k v [] = []"
| "handle_update_loop incident_id k v (incident # rest) =
     (if id_key incident = incident_id then set_item k v incident # rest
      else incident # handle_update_loop incident_id k v rest)"

definition handle_update :: "string \<Rightarrow> item_key \<Rightarrow> string \<Rightarrow> session_state \<Rightarrow> session_state" where
  "handle_update incident_id k v ss =
     ss\<lparr> incidents := handle_update_loop incident_id k v (incidents ss),
         active_incident_id := Some incident_id \<rparr>"

text \<open>
  \<^verbatim>\<open>send_notification_action(incident_id)\<close>; \<open>hms\<close> is the clock string. The body of the
  \<^verbatim>\<open>if\<close> is \<open>notify_incident\<close>.
\<close>

definition notify_incident :: "string \<Rightarrow> incident \<Rightarrow> incident" where
  "notify_incident hms incident =
     (let sent = notifications_sent incident + 1;
          rcpt = (if sent = 1 then ''Admin/Security'' else ''Parents/Counselors'')
      in incident\<lparr> notifications_sent := sent,
                   notification_log := notification_log incident @ [\<lparr> time = hms, recipient = rcpt \<rparr>] \<rparr>)"

fun send_notification_loop :: "string \<Rightarrow> string \<Rightarrow> incident list \<Rightarrow> incident list" where
  "send_notification_loop incident_id hms [] = []"
| "send_notification_loop incident_id hms (incident # rest) =
     (if id_key incident = incident_id then notify_incident hms incident # rest
      else incident # send_notification_loop incident_id hms rest)"

definition send_notification_action :: "string \<Rightarrow> string \<Rightarrow> session_state \<Rightarrow> session_state" where
  "send_notification_action incident_id hms ss =
     ss\<lparr> incidents := send_notification_loop incident_id hms (incidents ss) \<rparr>"

text \<open>
  \<^verbatim>\<open>incident_detail_panel\<close>, as far as it writes the state: a selected id (not \<^verbatim>\<open>None\<close>, not
  the empty string) that no incident has is cleared.
\<close>

definition incident_detail_panel :: "session_state \<Rightarrow> session_state" where
  "incident_detail_panel ss =
     (case active_incident_id ss of
        None \<Rightarrow> ss
      | Some incident_id \<Rightarrow>
          if incident_id = [] then ss
          else (case find (\<lambda>i. id_key i = incident_id) (incidents ss) of
                  None \<Rightarrow> ss\<lparr> active_incident_id := None \<rparr>
                | Some incident \<Rightarrow> ss))"

section \<open>Runs of the application\<close>

text \<open>
  One step of the application is one of the things that write the state: a frame handed to
  the running detector, the detection check of \<^verbatim>\<open>main\<close>, an uploaded image or video, a click
  on an incident card, the status selector, the alert button, the detail panel. A frame on
  which \<^verbatim>\<open>recv\<close> raises leaves detector and session state as they were.
\<close>

datatype event =
    Frame video_frame
  | Rerun env
  | Upload_image string int bool env
  | Upload_video string int bool env
  | Select string
  | Set_status string string
  | Notify string string
  | Show_detail

fun step :: "detector \<times> session_state \<Rightarrow> event \<Rightarrow> detector \<times> session_state" where
  "step ds (Frame frame) = (case recv frame ds of Inl err \<Rightarrow> ds | Inr ds' \<Rightarrow> ds')"
| "step (d, ss) (Rerun e) = (d, main_detection_check e ss)"
| "step (d, ss) (Upload_image name score pressed e) = (d, snd (process_uploaded_image name score pressed e ss))"
| "step (d, ss) (Upload_video name score pressed e) = (d, snd (process_uploaded_video name score pressed e ss))"
| "step (d, ss) (Select incident_id) = (d, select_incident incident_id ss)"
| "step (d, ss) (Set_status incident_id v) = (d, handle_update incident_id Key_status v ss)"
| "step (d, ss) (Notify incident_id hms) = (d, send_notification_action incident_id hms ss)"
| "step (d, ss) Show_detail = (d, incident_detail_panel ss)"

definition run :: "event list \<Rightarrow> detector \<times> session_state \<Rightarrow> detector \<times> session_state" where
  "run evs ds = foldl step ds evs"

definition start :: "detector \<times> session_state" where
  "start = (RealTimeDetector, initialize_state)"

text \<open>
  One poll of the live stream: a frame, then the detection check of \<^verbatim>\<open>main\<close>. A poll is
  given by its frame and by what the environment supplies to the check.
\<close>

definition polls :: "(video_frame \<times> env) list \<Rightarrow> event list" where
  "polls ps = concat (map (\<lambda>p. [Frame (fst p), Rerun (snd p)]) ps)"

text \<open>The polls whose frame \<^verbatim>\<open>recv\<close> converts, in order.\<close>

definition converted :: "(video_frame \<times> env) list \<Rightarrow> (video_frame \<times> env) list" where
  "converted ps = filter (\<lambda>p. fst p ''bgr'' = Ndarray) ps"

text \<open>The detection check of \<^verbatim>\<open>main\<close> has nothing to do: its condition is false.\<close>

definition check_idle :: "session_state \<Rightarrow> bool" where
  "check_idle ss = (\<not> violation_detected ss \<or> email_sent_for_last_detection ss)"




definition live_count :: "incident list \<Rightarrow> nat" where
  "live_count xs = length (filter (\<lambda>i. type i = ''Confirmed Live Violence'') xs)"

definition live_latch :: "session_state \<Rightarrow> bool" where
  "live_latch ss = (live_count (incidents ss) = (if email_sent_for_last_detection ss then 1 else 0))"

section \<open>Properties of the notification log\<close>

text \<open>The counter agrees with the log: the counter is the number of log entries.\<close>

definition counter_consistent :: "incident \<Rightarrow> bool" where
  "counter_consistent inc = (notifications_sent inc = int (length (notification_log inc)))"

text \<open>
  The first-recipient rule read on the whole log: the first entry goes to Admin/Security,
  every later one to Parents/Counselors.
\<close>

definition first_recipient_rule :: "incident \<Rightarrow> bool" where
  "first_recipient_rule inc =
     (case notification_log inc of
        [] \<Rightarrow> True
      | x # rest \<Rightarrow> recipient x = ''Admin/Security''
                    \<and> list_all (\<lambda>y. recipient y = ''Parents/Counselors'') rest)"

text \<open>The recipients of \<open>n\<close> presses of the alert button, in order.\<close>

definition manual_recipients :: "nat \<Rightarrow> string list" where
  "manual_recipients n =
     (if n = 0 then [] else ''Admin/Security'' # replicate (n - 1) ''Parents/Counselors'')"

text \<open>
  The shape of the log of an incident in the store: the alert entry written at creation,
  then one entry per press of the alert button.
\<close>

definition log_shape :: "incident \<Rightarrow> bool" where
  "log_shape inc =
     (0 \<le> notifications_sent inc
      \<and> map recipient (notification_log inc)
          = ''Email Alert System'' # manual_recipients (nat (notifications_sent inc)))"

section \<open>Example data\<close>

definition example_env :: env where
  "example_env = \<lparr> uuid4 = ''3f2b8c1e-7a4d-4e9b-9c0a-5d6e7f8a9b0c'', now = 600,
                   strftime = ''10:00:00'', raised = None \<rparr>"

text \<open>An image is uploaded and logged, then the alert button is pressed twice.\<close>

definition example_run :: "event list" where
  "example_run = [Upload_image ''a.jpg'' 90 True example_env,
                  Notify ''3f2b8c1e'' ''10:00:05'',
                  Notify ''3f2b8c1e'' ''10:00:09'']"

definition example_state :: session_state where
  "example_state = snd (run example_run start)"


definition bgr24_frame :: video_frame where
  "bgr24_frame f = (if f = ''bgr24'' then Ndarray else Raises (''not a pixel format: '' @ f))"



text \<open>
  The three incidents of the sorting scenario; the timestamps are minutes of the day
  (10:00, 11:00, 09:00).
\<close>

definition scenario_A :: incident where
  "scenario_A = generate_incident ''aaaaaaaa'' 600 ''Image Upload Violence'' ''File: a.jpg'' 90"

definition scenario_B :: incident where
  "scenario_B = (generate_incident ''bbbbbbbb'' 660 ''Image Upload Violence'' ''File: b.jpg'' 90)
                  \<lparr> status := ''Resolved'' \<rparr>"

definition scenario_C :: incident where
  "scenario_C = generate_incident ''cccccccc'' 540 ''Image Upload Violence'' ''File: c.jpg'' 90"

section \<open>Auxiliary facts\<close>

lemma str_int_95: "str_int 95 = ''95''"
  by code_simp

lemma str_int_90: "str_int 90 = ''90''"
  by code_simp

lemma generate_incident_live_description:
  "description (generate_incident u n ''Confirmed Live Violence'' ''Live Camera Feed'' 95)
     = ''Deep Learning Model detected **Confirmed Live Violence** at Live Camera Feed with 95% confidence.''"
  by (simp add: generate_incident_def str_int_95)

lemma handle_update_loop_unknown:
  "incident_id \<notin> id_key ` set xs \<Longrightarrow> handle_update_loop incident_id k v xs = xs"
  by (induction xs) auto

lemma send_notification_loop_unknown:
  "incident_id \<notin> id_key ` set xs \<Longrightarrow> send_notification_loop incident_id hms xs = xs"
  by (induction xs) auto

lemma send_notification_loop_first:
  "\<forall>x \<in> set pre. id_key x \<noteq> incident_id \<Longrightarrow> id_key inc = incident_id \<Longrightarrow>
   send_notification_loop incident_id hms (pre @ inc # post) = pre @ notify_incident hms inc # post"
  by (induction pre) auto

lemma run_append: "run (xs @ ys) ds = run ys (run xs ds)"
  by (simp add: run_def)

lemma polls_append: "polls (xs @ ys) = polls xs @ polls ys"
  by (simp add: polls_def)

lemma run_poll:
  "run (polls [p]) (d, ss) =
     (case recv (fst p) (d, ss) of
        Inl err \<Rightarrow> (d, main_detection_check (snd p) ss)
      | Inr ds' \<Rightarrow> (fst ds', main_detection_check (snd p) (snd ds')))"
  by (cases "recv (fst p) (d, ss)") (auto simp: polls_def run_def)

lemma example_state_store:
  "incidents example_state =
     [\<lparr> id_key = ''3f2b8c1e'', type = ''Image Upload Violence'', location = ''File: a.jpg'',
        status = ''New'', timestamp = 600, deescalation_score = 90, notifications_sent = 2,
        wellness_required = 2,
        description = ''Deep Learning Model detected **Image Upload Violence** at File: a.jpg with 90% confidence.'',
        notification_log =
          [\<lparr> time = ''10:00:00'', recipient = ''Email Alert System'' \<rparr>,
           \<lparr> time = ''10:00:05'', recipient = ''Admin/Security'' \<rparr>,
           \<lparr> time = ''10:00:09'', recipient = ''Parents/Counselors'' \<rparr>] \<rparr>]"
  by (simp add: example_state_def example_run_def run_def start_def initialize_state_def
        example_env_def process_uploaded_image_def log_and_alert_def Let_def
        generate_incident_def send_alert_email_def send_notification_action_def
        notify_incident_def str_int_90)

section \<open>The incident factory\<close>

text \<open>
  Claim C8. For every incident type, location and score, \<^verbatim>\<open>generate_incident\<close> returns a record
  with status \<^verbatim>\<open>New\<close>, \<open>notifications_sent = 0\<close>, \<open>wellness_required = 2\<close> and an empty
  notification log; the confidence score is the score given, the description is composed
  from type, location and score, and the type, location, time and id are the inputs. The
  record is determined by type, location, score, time and id: two uuid strings with the same
  first eight characters give the same record.
\<close>

theorem generate_incident_fields:
  "status (generate_incident u n t l sc) = ''New''
   \<and> notifications_sent (generate_incident u n t l sc) = 0
   \<and> wellness_required (generate_incident u n t l sc) = 2
   \<and> notification_log (generate_incident u n t l sc) = []
   \<and> deescalation_score (generate_incident u n t l sc) = sc
   \<and> id_key (generate_incident u n t l sc) = take 8 u
   \<and> type (generate_incident u n t l sc) = t
   \<and> location (generate_incident u n t l sc) = l
   \<and> timestamp (generate_incident u n t l sc) = n
   \<and> description (generate_incident u n t l sc) =
       ''Deep Learning Model detected **'' @ t @ ''** at '' @ l @ '' with '' @ str_int sc @ ''% confidence.''
   \<and> (take 8 u = take 8 u' \<longrightarrow> generate_incident u n t l sc = generate_incident u' n t l sc)"
  by (simp add: generate_incident_def)

theorem generate_incident_fields_witness:
  "take 8 ''0123456789'' = take 8 ''01234567ab''
   \<and> generate_incident ''0123456789'' 7 ''Confirmed Live Violence'' ''Live Camera Feed'' 95
     = generate_incident ''01234567ab'' 7 ''Confirmed Live Violence'' ''Live Camera Feed'' 95"
  using generate_incident_fields
          [of "''0123456789''" 7 "''Confirmed Live Violence''" "''Live Camera Feed''" 95 "''01234567ab''"]
  by simp

section \<open>The alert dispatcher\<close>

text \<open>
  Claim C6. Whether the \<^verbatim>\<open>try\<close> block of \<^verbatim>\<open>send_alert_email\<close> completes or raises, the
  incident comes back with one entry more at the end of its log, with recipient
  \<^verbatim>\<open>Email Alert System\<close>, and with nothing else changed; when the block raises, the error is
  reported as a message and not passed on to the caller.
\<close>

theorem send_alert_email_always_logs:
  "snd (send_alert_email None hms inc)
     = inc\<lparr> notification_log := notification_log inc @ [\<lparr> time = hms, recipient = ''Email Alert System'' \<rparr>] \<rparr>
   \<and> snd (send_alert_email (Some err) hms inc)
     = inc\<lparr> notification_log := notification_log inc @ [\<lparr> time = hms, recipient = ''Email Alert System'' \<rparr>] \<rparr>
   \<and> fst (send_alert_email None hms inc) = Email_alert_sent RECIPIENT_EMAIL (id_key inc)
   \<and> fst (send_alert_email (Some err) hms inc) = Email_failure err"
  by (simp add: send_alert_email_def)

section \<open>One-shot analysis\<close>

text \<open>
  Claim C7. An uploaded image is reported as a violation exactly when its drawn score is at
  least 80, an analysed video exactly when its drawn score is at least 85. Below the
  threshold the only effect is the message that no violation was found: the session state,
  and with it the store and every log, is unchanged. This holds for every integer score, so
  for every score in the ranges 70 to 100 and 85 to 99 that the code draws from.
\<close>

theorem one_shot_thresholds:
  "(Violation_detected sc \<in> set (fst (process_uploaded_image name sc pressed e ss))) = (80 \<le> sc)
   \<and> (sc < 80 \<longrightarrow> process_uploaded_image name sc pressed e ss = ([No_violation sc], ss))
   \<and> (Violation_detected sc \<in> set (fst (process_uploaded_video name sc True e ss))) = (85 \<le> sc)
   \<and> (sc < 85 \<longrightarrow> process_uploaded_video name sc True e ss = ([No_violation sc], ss))"
  by (simp add: process_uploaded_image_def process_uploaded_video_def Let_def)

theorem one_shot_thresholds_witness:
  "(79::int) < 80
   \<and> process_uploaded_image ''upload'' 79 True example_env initialize_state
       = ([No_violation 79], initialize_state)
   \<and> (84::int) < 85
   \<and> process_uploaded_video ''upload'' 84 True example_env initialize_state
       = ([No_violation 84], initialize_state)
   \<and> Violation_detected 80 \<in> set (fst (process_uploaded_image ''upload'' 80 True example_env initialize_state))
   \<and> Violation_detected 85 \<in> set (fst (process_uploaded_video ''upload'' 85 True example_env initialize_state))"
  using one_shot_thresholds [of 79 "''upload''" True example_env initialize_state]
        one_shot_thresholds [of 84 "''upload''" True example_env initialize_state]
        one_shot_thresholds [of 80 "''upload''" True example_env initialize_state]
        one_shot_thresholds [of 85 "''upload''" True example_env initialize_state]
  by simp

section \<open>Unknown incident ids\<close>

text \<open>
  Claim C5. When no incident in the store has the id, \<^verbatim>\<open>handle_update\<close> leaves the list of
  incidents as it was, and \<^verbatim>\<open>send_notification_action\<close> leaves the whole session state as
  it was. Neither function has a failing branch: both loops only compare ids.
\<close>

theorem unknown_id_leaves_store:
  "incident_id \<notin> id_key ` set (incidents ss) \<Longrightarrow>
     incidents (handle_update incident_id k v ss) = incidents ss
     \<and> send_notification_action incident_id hms ss = ss"
  by (simp add: handle_update_def send_notification_action_def
        handle_update_loop_unknown send_notification_loop_unknown)

theorem unknown_id_leaves_store_witness:
  "''nonexistent'' \<notin> id_key ` set (incidents example_state)
   \<and> incidents (handle_update ''nonexistent'' Key_status ''Resolved'' example_state)
       = incidents example_state
   \<and> send_notification_action ''nonexistent'' ''10:00:20'' example_state = example_state"
proof -
  have h: "''nonexistent'' \<notin> id_key ` set (incidents example_state)"
    by (simp add: example_state_store)
  from unknown_id_leaves_store [OF h, of Key_status "''Resolved''" "''10:00:20''"] h
  show ?thesis by simp
qed

text \<open>
  Claim C9. When no incident in the store has the id, \<^verbatim>\<open>handle_update\<close> still makes that id
  the selected one, so the selection names an incident that the store does not hold.
\<close>

theorem handle_update_unknown_id_selected:
  "incident_id \<notin> id_key ` set (incidents ss) \<Longrightarrow>
     active_incident_id (handle_update incident_id k v ss) = Some incident_id
     \<and> incident_id \<notin> id_key ` set (incidents (handle_update incident_id k v ss))"
  by (simp add: handle_update_def handle_update_loop_unknown)

theorem handle_update_unknown_id_selected_witness:
  "''nonexistent'' \<notin> id_key ` set (incidents example_state)
   \<and> active_incident_id (handle_update ''nonexistent'' Key_status ''Resolved'' example_state)
       = Some ''nonexistent''
   \<and> ''nonexistent'' \<notin> id_key ` set (incidents (handle_update ''nonexistent'' Key_status ''Resolved'' example_state))"
proof -
  have h: "''nonexistent'' \<notin> id_key ` set (incidents example_state)"
    by (simp add: example_state_store)
  from handle_update_unknown_id_selected [OF h, of Key_status "''Resolved''"] h
  show ?thesis by simp
qed

section \<open>The frame of a manual notification\<close>

text \<open>
  Claim C10. When some incident in the store has the id, \<^verbatim>\<open>send_notification_action\<close> changes
  the first such incident and nothing else: the store splits into the incidents before it
  (none with the id), the incident itself and the incidents after it; the incident gets its
  counter raised by one and one entry appended to its log, and keeps its id, type, location,
  status, timestamp, confidence score, wellness counter and description; all other incidents
  and the rest of the session state are as before.
\<close>

theorem send_notification_action_frame:
  "incident_id \<in> id_key ` set (incidents ss) \<Longrightarrow>
     \<exists>pre inc post.
       incidents ss = pre @ inc # post
       \<and> (\<forall>x \<in> set pre. id_key x \<noteq> incident_id)
       \<and> id_key inc = incident_id
       \<and> send_notification_action incident_id hms ss
           = ss\<lparr> incidents := pre @
                 inc\<lparr> notifications_sent := notifications_sent inc + 1,
                      notification_log := notification_log inc @
                        [\<lparr> time = hms,
                           recipient = (if notifications_sent inc = 0 then ''Admin/Security''
                                        else ''Parents/Counselors'') \<rparr>] \<rparr> # post \<rparr>"
proof -
  assume "incident_id \<in> id_key ` set (incidents ss)"
  then have "\<exists>x \<in> set (incidents ss). id_key x = incident_id" by auto
  from split_list_first_prop [OF this] obtain pre inc post where
    d: "incidents ss = pre @ inc # post" "id_key inc = incident_id"
       "\<forall>x \<in> set pre. id_key x \<noteq> incident_id"
    by blast
  have "send_notification_action incident_id hms ss
          = ss\<lparr> incidents := pre @ notify_incident hms inc # post \<rparr>"
    by (simp add: send_notification_action_def d send_notification_loop_first)
  with d show ?thesis
    by (auto simp: notify_incident_def Let_def)
qed

theorem send_notification_action_frame_witness:
  "''3f2b8c1e'' \<in> id_key ` set (incidents example_state)
   \<and> (\<exists>pre inc post.
         incidents example_state = pre @ inc # post
         \<and> (\<forall>x \<in> set pre. id_key x \<noteq> ''3f2b8c1e'')
         \<and> id_key inc = ''3f2b8c1e''
         \<and> send_notification_action ''3f2b8c1e'' ''10:00:20'' example_state
             = example_state\<lparr> incidents := pre @
                 inc\<lparr> notifications_sent := notifications_sent inc + 1,
                      notification_log := notification_log inc @
                        [\<lparr> time = ''10:00:20'',
                           recipient = (if notifications_sent inc = 0 then ''Admin/Security''
                                        else ''Parents/Counselors'') \<rparr>] \<rparr> # post \<rparr>)"
proof -
  have h: "''3f2b8c1e'' \<in> id_key ` set (incidents example_state)"
    by (simp add: example_state_store)
  from send_notification_action_frame [OF h, of "''10:00:20''"] h
  show ?thesis by blast
qed

section \<open>Counter and log in every reachable store\<close>

lemma manual_recipients_Suc:
  "manual_recipients (Suc n)
     = manual_recipients n @ [if n = 0 then ''Admin/Security'' else ''Parents/Counselors'']"
  by (cases n) (simp_all add: manual_recipients_def replicate_append_same)

lemma log_shape_notify: "log_shape inc \<Longrightarrow> log_shape (notify_incident hms inc)"
proof -
  assume a: "log_shape inc"
  then have n0: "0 \<le> notifications_sent inc" by (simp add: log_shape_def)
  then have s: "nat (notifications_sent inc + 1) = Suc (nat (notifications_sent inc))" by simp
  have z: "(notifications_sent inc + 1 = 1) = (nat (notifications_sent inc) = 0)" using n0 by auto
  show ?thesis
    using a n0 by (simp add: log_shape_def notify_incident_def Let_def s z manual_recipients_Suc)
qed

lemma log_shape_set_item: "log_shape (set_item k v inc) = log_shape inc"
  by (cases k) (simp_all add: log_shape_def)

lemma log_shape_new:
  "log_shape (snd (send_alert_email r hms (generate_incident u n t l sc)))"
  by (simp add: log_shape_def send_alert_email_def generate_incident_def manual_recipients_def)

lemma log_shape_send_notification_loop:
  "list_all log_shape xs \<Longrightarrow> list_all log_shape (send_notification_loop incident_id hms xs)"
  by (induction xs) (auto simp: log_shape_notify)

lemma log_shape_handle_update_loop:
  "list_all log_shape xs \<Longrightarrow> list_all log_shape (handle_update_loop incident_id k v xs)"
  by (induction xs) (auto simp: log_shape_set_item)

lemma log_shape_log_and_alert:
  "list_all log_shape (incidents ss) \<Longrightarrow>
   list_all log_shape (incidents (snd (log_and_alert e t l sc ss)))"
  by (simp add: log_and_alert_def Let_def log_shape_new)

lemma log_shape_step:
  "list_all log_shape (incidents (snd ds)) \<Longrightarrow> list_all log_shape (incidents (snd (step ds ev)))"
proof (cases ds)
  case (Pair d ss)
  assume a: "list_all log_shape (incidents (snd ds))"
  with Pair have b: "list_all log_shape (incidents ss)" by simp
  show ?thesis
  proof (cases ev)
    case (Frame fr)
    with Pair b show ?thesis
      by (simp add: recv_def Let_def split: to_ndarray_result.splits)
  next
    case (Rerun e)
    with Pair b show ?thesis
      using log_shape_log_and_alert [OF b] by (simp add: main_detection_check_def)
  next
    case (Upload_image name sc pressed e)
    with Pair b show ?thesis
      using log_shape_log_and_alert [OF b] by (simp add: process_uploaded_image_def Let_def)
  next
    case (Upload_video name sc pressed e)
    with Pair b show ?thesis
      using log_shape_log_and_alert [OF b] by (simp add: process_uploaded_video_def Let_def)
  next
    case (Select i)
    with Pair b show ?thesis by (simp add: select_incident_def)
  next
    case (Set_status i v)
    with Pair b show ?thesis by (simp add: handle_update_def log_shape_handle_update_loop)
  next
    case (Notify i hms)
    with Pair b show ?thesis
      by (simp add: send_notification_action_def log_shape_send_notification_loop)
  next
    case Show_detail
    with Pair b show ?thesis by (simp add: incident_detail_panel_def split: option.splits)
  qed
qed

lemma log_shape_run:
  "list_all log_shape (incidents (snd ds)) \<Longrightarrow> list_all log_shape (incidents (snd (run evs ds)))"
  unfolding run_def by (induction evs arbitrary: ds) (simp_all add: log_shape_step)

lemma log_shape_reachable: "list_all log_shape (incidents (snd (run evs start)))"
  by (rule log_shape_run) (simp add: start_def initialize_state_def)

text \<open>
  Claim C1, as stated, fails: after an image is logged and the alert button is pressed twice,
  the incident has \<open>notifications_sent = 2\<close> and three log entries, since
  \<^verbatim>\<open>send_alert_email\<close> appends to the log and leaves the counter alone.
\<close>

theorem counter_consistent_counterexample:
  "\<not> list_all counter_consistent (incidents (snd (run example_run start)))"
  using example_state_store by (simp add: example_state_def counter_consistent_def)

text \<open>
  Claim C1, amended. For every incident in the store after any sequence of steps of the
  application, the log has exactly one entry more than the counter says: the entry of the
  alert sent at creation, which does not count, and one entry per manual notification,
  each of which raises the counter by one.
\<close>

theorem log_length_is_counter_plus_alert:
  "\<forall>inc \<in> set (incidents (snd (run evs start))).
     int (length (notification_log inc)) = notifications_sent inc + 1"
proof
  fix inc assume "inc \<in> set (incidents (snd (run evs start)))"
  with log_shape_reachable [of evs] have s: "log_shape inc" by (simp add: list_all_iff)
  then have "length (map recipient (notification_log inc))
               = length (''Email Alert System'' # manual_recipients (nat (notifications_sent inc)))"
    by (simp only: log_shape_def)
  moreover have "0 \<le> notifications_sent inc" using s by (simp add: log_shape_def)
  ultimately show "int (length (notification_log inc)) = notifications_sent inc + 1"
    by (simp add: manual_recipients_def split: if_splits)
qed

theorem log_length_is_counter_plus_alert_witness:
  "hd (incidents (snd (run example_run start))) \<in> set (incidents (snd (run example_run start)))
   \<and> length (notification_log (hd (incidents (snd (run example_run start))))) = 3
   \<and> notifications_sent (hd (incidents (snd (run example_run start)))) = 2"
proof -
  have st: "incidents (snd (run example_run start)) = incidents example_state"
    by (simp add: example_state_def)
  have m: "hd (incidents (snd (run example_run start))) \<in> set (incidents (snd (run example_run start)))"
    by (simp add: st example_state_store)
  have n: "notifications_sent (hd (incidents (snd (run example_run start)))) = 2"
    by (simp add: st example_state_store)
  from log_length_is_counter_plus_alert [of example_run] m
  have "int (length (notification_log (hd (incidents (snd (run example_run start))))))
          = notifications_sent (hd (incidents (snd (run example_run start)))) + 1"
    by blast
  with m n show ?thesis by simp
qed

text \<open>
  Claim C2, as stated, fails: after an image is logged and the alert button is pressed twice,
  the recipients in the log are Email Alert System, Admin/Security, Parents/Counselors; the
  first entry is not for Admin/Security and the second is not for Parents/Counselors.
\<close>

theorem first_recipient_rule_counterexample:
  "\<not> list_all first_recipient_rule (incidents (snd (run example_run start)))"
  using example_state_store by (simp add: example_state_def first_recipient_rule_def)

text \<open>
  Claim C2, amended. For every incident in the store after any sequence of steps of the
  application, the first log entry is the one for Email Alert System written at creation;
  of the entries after it, one per manual notification counted by \<open>notifications_sent\<close>, the
  first is for Admin/Security and every later one for Parents/Counselors.
\<close>

theorem log_recipients_in_order:
  "\<forall>inc \<in> set (incidents (snd (run evs start))).
     map recipient (notification_log inc)
       = ''Email Alert System'' # manual_recipients (nat (notifications_sent inc))"
  using log_shape_reachable [of evs] by (simp add: list_all_iff log_shape_def)

theorem log_recipients_in_order_witness:
  "hd (incidents (snd (run example_run start))) \<in> set (incidents (snd (run example_run start)))
   \<and> map recipient (notification_log (hd (incidents (snd (run example_run start)))))
       = [''Email Alert System'', ''Admin/Security'', ''Parents/Counselors'']"
proof -
  have st: "incidents (snd (run example_run start)) = incidents example_state"
    by (simp add: example_state_def)
  have m: "hd (incidents (snd (run example_run start))) \<in> set (incidents (snd (run example_run start)))"
    by (simp add: st example_state_store)
  have n: "notifications_sent (hd (incidents (snd (run example_run start)))) = 2"
    by (simp add: st example_state_store)
  from log_recipients_in_order [of example_run] m
  have "map recipient (notification_log (hd (incidents (snd (run example_run start)))))
          = ''Email Alert System'' #
            manual_recipients (nat (notifications_sent (hd (incidents (snd (run example_run start))))))"
    by blast
  with m n show ?thesis by (simp add: manual_recipients_def)
qed

section \<open>Display order\<close>

text \<open>
  What the sort does on every list: the keys \<open>(status \<noteq> New, timestamp)\<close> are in descending
  order, so an incident that is not New never stands behind a New one, and within a group
  the newer incident comes first.
\<close>

lemma sorted_incidents_descending:
  "sorted_wrt (\<lambda>a b. sort_key_of b \<le> sort_key_of a) (sorted_incidents xs)
   \<and> set (sorted_incidents xs) = set xs
   \<and> length (sorted_incidents xs) = length xs"
proof -
  have "sorted (map sort_key_of (sort_key sort_key_of (rev xs)))"
    by (rule sorted_sort_key)
  then have "sorted_wrt (\<lambda>a b. sort_key_of a \<le> sort_key_of b) (sort_key sort_key_of (rev xs))"
    by (simp add: sorted_wrt_map)
  then show ?thesis
    by (simp add: sorted_incidents_def py_sorted_reverse_def sorted_wrt_rev)
qed

lemma new_never_before_other:
  assumes "i < j" "j < length xs" "status (sorted_incidents xs ! i) = ''New''"
  shows "status (sorted_incidents xs ! j) = ''New''
         \<and> timestamp (sorted_incidents xs ! j) \<le> timestamp (sorted_incidents xs ! i)"
proof -
  have "sort_key_of (sorted_incidents xs ! j) \<le> sort_key_of (sorted_incidents xs ! i)"
    using sorted_incidents_descending [of xs] assms(1,2)
    by (simp add: sorted_wrt_iff_nth_less)
  with assms(3) show ?thesis
    by (auto simp: sort_key_of_def less_eq_prod_def)
qed

text \<open>
  Claim C3, on the scenario it names: A (New, 10:00), B (Resolved, 11:00), C (New, 09:00).
  The claim asks for the order A, C, B; the sort gives B, A, C: with \<^verbatim>\<open>reverse=True\<close> the
  key \<open>status \<noteq> New\<close> puts the incidents that are not New first.
\<close>

theorem sorted_incidents_scenario:
  "sorted_incidents [scenario_A, scenario_B, scenario_C] = [scenario_B, scenario_A, scenario_C]"
  by (simp add: sorted_incidents_def py_sorted_reverse_def sort_key_of_def
        scenario_A_def scenario_B_def scenario_C_def generate_incident_def)

section \<open>The live stream\<close>

lemma check_idle_main: "check_idle ss \<Longrightarrow> main_detection_check e ss = ss"
  by (auto simp: check_idle_def main_detection_check_def)

lemma poll_raises:
  "fst p ''bgr'' \<noteq> Ndarray \<Longrightarrow> check_idle ss \<Longrightarrow> run (polls [p]) (d, ss) = (d, ss)"
  by (cases "fst p ''bgr''") (simp_all add: run_poll recv_def check_idle_main)

lemma check_idle_poll: "check_idle ss \<Longrightarrow> check_idle (snd (run (polls [p]) (d, ss)))"
  by (cases "fst p ''bgr''")
     (auto simp: run_poll recv_def Let_def check_idle_def main_detection_check_def
        log_and_alert_def)

lemma polls_converted:
  "check_idle (snd ds) \<Longrightarrow> run (polls ps) ds = run (polls (converted ps)) ds"
proof (induction ps arbitrary: ds)
  case Nil
  show ?case by (simp add: converted_def)
next
  case (Cons p ps)
  obtain d ss where ds: "ds = (d, ss)" by (cases ds)
  with Cons.prems have idle: "check_idle ss" by simp
  have unfold: "run (polls (p # qs)) ds = run (polls qs) (run (polls [p]) ds)" for qs
    using polls_append [of "[p]" qs] by (simp add: run_append)
  show ?case
  proof (cases "fst p ''bgr'' = Ndarray")
    case True
    then have c: "converted (p # ps) = p # converted ps" by (simp add: converted_def)
    have "check_idle (snd (run (polls [p]) ds))"
      using check_idle_poll [OF idle] ds by simp
    from Cons.IH [OF this] show ?thesis
      by (simp only: c unfold [of ps] unfold [of "converted ps"])
  next
    case False
    then have c: "converted (p # ps) = converted ps" by (simp add: converted_def)
    from False have "run (polls [p]) ds = ds" using poll_raises [OF _ idle] ds by simp
    with Cons.IH [OF Cons.prems] show ?thesis
      by (simp only: c unfold [of ps])
  qed
qed

lemma ramp_polls:
  "\<forall>p \<in> set ps. fst p ''bgr'' = Ndarray \<Longrightarrow> length ps \<le> 90 \<Longrightarrow> check_idle ss \<Longrightarrow>
   run (polls ps) (RealTimeDetector, ss)
     = (\<lparr> violence_score = (if ps = [] then 0 else int (length ps) - 1),
          frame_counter = int (length ps), detection_triggered = False \<rparr>, ss)"
proof (induction ps rule: rev_induct)
  case Nil
  show ?case by (simp add: polls_def run_def RealTimeDetector_def)
next
  case (snoc p ps)
  then have ih: "run (polls ps) (RealTimeDetector, ss)
     = (\<lparr> violence_score = (if ps = [] then 0 else int (length ps) - 1),
          frame_counter = int (length ps), detection_triggered = False \<rparr>, ss)"
    and len: "length ps < 90" and idle: "check_idle ss" and conv: "fst p ''bgr'' = Ndarray"
    by simp_all
  show ?case
    using len conv
    by (simp add: polls_append run_append ih run_poll recv_def Let_def check_idle_main [OF idle])
qed







lemma converted_all: "\<forall>p \<in> set (converted ps). fst p ''bgr'' = Ndarray"
  by (simp add: converted_def)



text \<open>
  While fewer than 91 frames have been converted the score is below 90 and the session
  state is untouched; in particular frames that all raise in the conversion, as those of
  \<open>bgr24_frame\<close> do, never lead to an incident.
\<close>

lemma live_detection_before_threshold:
  assumes "length (converted ps) \<le> 90" and "check_idle ss"
  shows "snd (run (polls ps) (RealTimeDetector, ss)) = ss"
proof -
  have "run (polls (converted ps)) (RealTimeDetector, ss)
          = (\<lparr> violence_score = (if converted ps = [] then 0 else int (length (converted ps)) - 1),
               frame_counter = int (length (converted ps)), detection_triggered = False \<rparr>, ss)"
    by (rule ramp_polls [OF converted_all assms])
  then show ?thesis
    using polls_converted [of "(RealTimeDetector, ss)" ps] assms(2) by simp
qed

lemma bgr24_frames_create_nothing:
  "run (polls (replicate n (bgr24_frame, e))) start = start"
proof -
  have c: "converted (replicate n (bgr24_frame, e)) = []"
    by (simp add: converted_def bgr24_frame_def)
  have "check_idle (snd start)"
    by (simp add: start_def initialize_state_def check_idle_def)
  from polls_converted [OF this, of "replicate n (bgr24_frame, e)"] show ?thesis
    by (simp add: c polls_def run_def)
qed





text \<open>
  In every run of the application, whatever the order of frames, detection checks and other
  steps, the store holds at most one incident of type \<^verbatim>\<open>Confirmed Live Violence\<close>: it holds
  one exactly when \<^verbatim>\<open>email_sent_for_last_detection\<close> is set, and nothing resets that flag.
\<close>

lemma live_count_handle_update_loop:
  "live_count (handle_update_loop incident_id Key_status v xs) = live_count xs"
  by (induction xs) (simp_all add: live_count_def)

lemma live_count_send_notification_loop:
  "live_count (send_notification_loop incident_id hms xs) = live_count xs"
  by (induction xs) (simp_all add: live_count_def notify_incident_def Let_def)

lemma live_latch_step: "live_latch (snd ds) \<Longrightarrow> live_latch (snd (step ds ev))"
proof (cases ds)
  case (Pair d ss)
  assume "live_latch (snd ds)"
  with Pair have b: "live_latch ss" by simp
  show ?thesis
  proof (cases ev)
    case (Frame fr)
    with Pair b show ?thesis
      by (simp add: recv_def Let_def live_latch_def split: to_ndarray_result.splits)
  next
    case (Rerun e)
    with Pair b show ?thesis
      by (auto simp: main_detection_check_def log_and_alert_def Let_def live_latch_def
            live_count_def send_alert_email_def generate_incident_def split: if_splits)
  next
    case (Upload_image name sc pressed e)
    with Pair b show ?thesis
      by (auto simp: process_uploaded_image_def log_and_alert_def Let_def live_latch_def
            live_count_def send_alert_email_def generate_incident_def split: if_splits)
  next
    case (Upload_video name sc pressed e)
    with Pair b show ?thesis
      by (auto simp: process_uploaded_video_def log_and_alert_def Let_def live_latch_def
            live_count_def send_alert_email_def generate_incident_def split: if_splits)
  next
    case (Select i)
    with Pair b show ?thesis by (simp add: select_incident_def live_latch_def)
  next
    case (Set_status i v)
    with Pair b show ?thesis
      by (simp add: handle_update_def live_latch_def live_count_handle_update_loop)
  next
    case (Notify i hms)
    with Pair b show ?thesis
      by (simp add: send_notification_action_def live_latch_def live_count_send_notification_loop)
  next
    case Show_detail
    with Pair b show ?thesis
      by (simp add: incident_detail_panel_def live_latch_def split: option.splits)
  qed
qed

lemma live_count_at_most_one: "live_count (incidents (snd (run evs start))) \<le> 1"
proof -
  have "live_latch (snd ds) \<Longrightarrow> live_latch (snd (run evs ds))" for ds
    unfolding run_def by (induction evs arbitrary: ds) (simp_all add: live_latch_step)
  from this [of start] have "live_latch (snd (run evs start))"
    by (simp add: start_def initialize_state_def live_latch_def live_count_def)
  then show ?thesis by (simp add: live_latch_def split: if_splits)
qed

end
